theory Spec2Isabelle
  imports Complex_Main "HOL-Library.Sublist" "HOL-Library.Log_Nat"
begin

section \<open>The experiment runner of \<open>experiment.ts\<close>\<close>

text \<open>
  The three variants of \<open>experiment.ts\<close> in the repository share, line for line, the
  environment constants, the exit functions and the two callbacks that
  \<open>runExperiment\<close> registers with \<open>initJsPsych\<close>. They differ only in the timeline
  they build; one variant adds the debrief block of the last section.
\<close>

subsection \<open>Data\<close>

text \<open>\<open>type Task = 'response' | 'fixation'\<close>, \<open>type Response = 'left' | 'right'\<close>.\<close>

datatype Task = TaskResponse | TaskFixation

datatype Response = RespLeft | RespRight

text \<open>
  \<open>interface TrialData\<close>, together with the \<open>rt\<close> property that the debrief block reads.
  The engine hands over whatever properties a trial wrote: a property that the trial
  did not write reads as \<open>undefined\<close>, here \<open>None\<close>. The reaction time is the number
  of milliseconds the engine measured.
\<close>

record TrialData =
  task :: "Task option"
  response :: "Response option"
  correct :: "bool option"
  correct_response :: "Response option"
  saveIncrementally :: "bool option"
  rt :: "nat option"

text \<open>JavaScript truthiness of an optional boolean property: \<open>undefined\<close> is falsy.\<close>

fun truthy :: "bool option \<Rightarrow> bool" where
  "truthy (Some b) = b"
| "truthy None = False"

text \<open>
  jsPsych's \<open>DataCollection\<close> wraps the array of the trials' records; \<open>values()\<close> hands
  that array out.
\<close>

datatype DataCollection = DataCollection (trials: "TrialData list")

definition values_dc :: "DataCollection \<Rightarrow> TrialData list" where
  "values_dc data = trials data"

text \<open>
  The environment of \<open>globalVariables\<close>: the constants \<open>debug = debugging()\<close> and
  \<open>mock = mockStore()\<close>, the completion code and the completion URL.
\<close>

record Config =
  debug :: bool
  mock :: bool
  prolificCC :: string
  prolificCUrl :: string

subsection \<open>The world the callbacks act on\<close>

text \<open>The value a promise is rejected with (\<open>error: unknown\<close>).\<close>

type_synonym error = string

datatype log_arg = Str string | Obj TrialData | Data DataCollection | Err error

datatype console_entry = Log "log_arg list" | Error "log_arg list"

text \<open>The two operations of \<open>lib/databaseUtils\<close>, as calls made.\<close>

datatype adapter_call = SavePartial TrialData | SaveComplete "TrialData list"

text \<open>The two callbacks the code hands to \<open>setTimeout\<close>.\<close>

datatype callback = LocationReplace string | DisplayData

text \<open>
  \<^item> \<open>content_div\<close>: the \<open>innerHTML\<close> of the element \<open>#jspsych-content\<close>, \<open>None\<close> when
    \<open>document.querySelector\<close> finds no such element;
  \<^item> \<open>body_html\<close>: what has been assigned to \<open>document.body.innerHTML\<close>, \<open>None\<close> while
    the body is as the engine rendered it;
  \<^item> \<open>console\<close>: the lines of \<open>console.log\<close> and \<open>console.error\<close>, oldest first;
  \<^item> \<open>adapter_calls\<close>: the calls of \<open>saveTrialDataPartial\<close> and
    \<open>saveTrialDataComplete\<close>, in the order they were made;
  \<^item> \<open>timers\<close>: the calls of \<open>setTimeout\<close>, callback and delay in milliseconds;
  \<^item> \<open>panel_updates\<close>: how often \<open>updateDebugPanel\<close> has been called.
\<close>

record World =
  content_div :: "string option"
  body_html :: "string option"
  console :: "console_entry list"
  adapter_calls :: "adapter_call list"
  timers :: "(callback \<times> nat) list"
  panel_updates :: nat

definition console_log :: "log_arg list \<Rightarrow> World \<Rightarrow> World" where
  "console_log args w = w\<lparr>console := console w @ [Log args]\<rparr>"

definition console_error :: "log_arg list \<Rightarrow> World \<Rightarrow> World" where
  "console_error args w = w\<lparr>console := console w @ [Error args]\<rparr>"

definition setTimeout :: "callback \<Rightarrow> nat \<Rightarrow> World \<Rightarrow> World" where
  "setTimeout cb ms w = w\<lparr>timers := timers w @ [(cb, ms)]\<rparr>"

definition updateDebugPanel :: "World \<Rightarrow> World" where
  "updateDebugPanel w = w\<lparr>panel_updates := Suc (panel_updates w)\<rparr>"

text \<open>Calling an operation of the adapter returns a promise at once; the call is recorded.\<close>

definition saveTrialDataPartial :: "TrialData \<Rightarrow> World \<Rightarrow> World" where
  "saveTrialDataPartial r w = w\<lparr>adapter_calls := adapter_calls w @ [SavePartial r]\<rparr>"

definition saveTrialDataComplete :: "TrialData list \<Rightarrow> World \<Rightarrow> World" where
  "saveTrialDataComplete rs w = w\<lparr>adapter_calls := adapter_calls w @ [SaveComplete rs]\<rparr>"

text \<open>How a promise settles.\<close>

datatype outcome = Resolved | Rejected error

subsection \<open>The exit notice and the two ways out\<close>

definition debuggingText :: "Config \<Rightarrow> string" where
  "debuggingText cfg =
     (if debug cfg then ''<br /><br />redirect link : '' @ prolificCUrl cfg else ''<br />'')"

definition exitMessage :: "Config \<Rightarrow> string" where
  \<open>exitMessage cfg =
     ''<p class="text-center align-middle">\<newline>'' @
     ''Please wait. You will be redirected back to Prolific in a few moments.\<newline>'' @
     ''<br /><br />\<newline>'' @
     ''If not, please use the following completion code to ensure compensation for this study: '' @
     prolificCC cfg @ ''\<newline>'' @
     debuggingText cfg @ ''\<newline>'' @
     ''</p>''\<close>

text \<open>
  \<open>exitExperiment\<close> overwrites the whole body, so the element \<open>#jspsych-content\<close> is
  gone afterwards, and schedules the redirect.
\<close>

definition exitExperiment :: "Config \<Rightarrow> World \<Rightarrow> World" where
  "exitExperiment cfg w =
     setTimeout (LocationReplace (prolificCUrl cfg)) 3000
       (w\<lparr>body_html := Some (exitMessage cfg), content_div := None\<rparr>)"

definition exitExperimentDebugging :: "Config \<Rightarrow> World \<Rightarrow> World" where
  "exitExperimentDebugging cfg w =
     (case content_div w of
        Some _ \<Rightarrow> w\<lparr>content_div := Some (exitMessage cfg)\<rparr>
      | None \<Rightarrow> w)"

subsection \<open>The callbacks registered with \<open>initJsPsych\<close>\<close>

text \<open>
  \<open>on_data_update\<close> runs to its end when the engine calls it; what it passes to
  \<open>then\<close> runs later, when the promise of \<open>saveTrialDataPartial\<close> settles:
  \<open>saveTrialDataPartial_then\<close> is that continuation, by the outcome.
\<close>

definition on_data_update :: "Config \<Rightarrow> TrialData \<Rightarrow> World \<Rightarrow> World" where
  "on_data_update cfg trialData w =
     (let w1 = (if debug cfg
                then console_log [Str ''jsPsych-update :: trialData ::'', Obj trialData] w
                else w)
      in if truthy (saveIncrementally trialData) then saveTrialDataPartial trialData w1 else w1)"

definition saveTrialDataPartial_then :: "Config \<Rightarrow> outcome \<Rightarrow> World \<Rightarrow> World" where
  "saveTrialDataPartial_then cfg out w =
     (case out of
        Resolved \<Rightarrow>
          if debug cfg
          then (let w1 = console_log [Str ''saveTrialDataPartial: Success''] w
                in if mock cfg then updateDebugPanel w1 else w1)
          else w
      | Rejected e \<Rightarrow> console_error [Err e] w)"

text \<open>
  Likewise \<open>on_finish\<close> and the continuation of \<open>saveTrialDataComplete\<close>, which
  closes over \<open>data\<close>.
\<close>

definition on_finish :: "Config \<Rightarrow> DataCollection \<Rightarrow> World \<Rightarrow> World" where
  "on_finish cfg data w =
     (let w1 = (case content_div w of
                  Some _ \<Rightarrow> w\<lparr>content_div := Some ''<p> Please wait, your data are being saved.</p>''\<rparr>
                | None \<Rightarrow> w)
      in saveTrialDataComplete (values_dc data) w1)"

definition saveTrialDataComplete_then ::
  "Config \<Rightarrow> DataCollection \<Rightarrow> outcome \<Rightarrow> World \<Rightarrow> World" where
  "saveTrialDataComplete_then cfg data out w =
     (case out of
        Resolved \<Rightarrow>
          if debug cfg
          then (let w1 = exitExperimentDebugging cfg w;
                    w2 = console_log [Str ''saveTrialDataComplete: Success''] w1;
                    w3 = console_log [Str ''jsPsych-finish :: data ::''] w2;
                    w4 = console_log [Data data] w3
                in setTimeout DisplayData 3000 w4)
          else exitExperiment cfg w
      | Rejected e \<Rightarrow> exitExperiment cfg (console_error [Err e] w))"

subsection \<open>The engine's side of the contract\<close>

text \<open>
  While the timeline runs, the engine calls \<open>on_data_update\<close> once for each unit
  that completes, and promises of earlier calls settle in between, in any order and
  at any time. A run is a list of such events.
\<close>

datatype event = DataUpdate TrialData | PartialSettled outcome

fun step :: "Config \<Rightarrow> event \<Rightarrow> World \<Rightarrow> World" where
  "step cfg (DataUpdate trialData) w = on_data_update cfg trialData w"
| "step cfg (PartialSettled out) w = saveTrialDataPartial_then cfg out w"

fun running :: "Config \<Rightarrow> event list \<Rightarrow> World \<Rightarrow> World" where
  "running cfg [] w = w"
| "running cfg (ev # evs) w = running cfg evs (step cfg ev w)"

text \<open>The calls of \<open>saveTrialDataPartial\<close> a run is to make.\<close>

fun dispatched :: "event list \<Rightarrow> adapter_call list" where
  "dispatched [] = []"
| "dispatched (DataUpdate trialData # evs) =
     (if truthy (saveIncrementally trialData) then SavePartial trialData # dispatched evs
      else dispatched evs)"
| "dispatched (PartialSettled out # evs) = dispatched evs"

text \<open>What the participant can see: the page and what has been scheduled for it.\<close>

definition visible :: "World \<Rightarrow> string option \<times> string option \<times> (callback \<times> nat) list \<times> nat" where
  "visible w = (content_div w, body_html w, timers w, panel_updates w)"

section \<open>JavaScript numbers\<close>

text \<open>
  A JavaScript number is an IEEE 754 binary64 value. Every number of this program is
  computed from counts and reaction times by \<open>+\<close>, \<open>*\<close>, \<open>/\<close> and \<open>Math.round\<close>,
  so none is negative: the model has the non-negative finite values (as the reals they
  denote), \<open>Infinity\<close> and \<open>NaN\<close>, and leaves the sign out.
\<close>

datatype number = Num real | Infinity | NaN

definition pow2 :: "int \<Rightarrow> real" where
  "pow2 k = (if 0 \<le> k then 2 ^ nat k else 1 / 2 ^ nat (- k))"

text \<open>The exponent of a positive real: \<open>pow2 (ilog2 q) \<le> q < pow2 (ilog2 q + 1)\<close>.\<close>

definition ilog2 :: "real \<Rightarrow> int" where
  "ilog2 q = (if 1 \<le> q then int (floorlog 2 (nat \<lfloor>q\<rfloor>)) - 1
              else - int (floorlog 2 (nat (\<lceil>1 / q\<rceil> - 1))))"

definition round_ties_even :: "real \<Rightarrow> int" where
  "round_ties_even m =
     (let n = \<lfloor>m\<rfloor>; r = m - of_int n
      in if r < 1 / 2 then n else if 1 / 2 < r then n + 1 else if even n then n else n + 1)"

text \<open>
  The binary64 value of an exact result \<open>q \<ge> 0\<close>, rounded to nearest, ties to even:
  53 significant bits, the spacing never below \<open>2\<^sup>-\<^sup>1\<^sup>0\<^sup>7\<^sup>4\<close> (subnormal numbers), and
  \<open>Infinity\<close> from \<open>2\<^sup>1\<^sup>0\<^sup>2\<^sup>4\<close> on.
\<close>

definition fl :: "real \<Rightarrow> number" where
  "fl q =
     (if q = 0 then Num 0
      else let u = pow2 (max (ilog2 q - 52) (- 1074));
               q' = of_int (round_ties_even (q / u)) * u
           in if pow2 1024 \<le> q' then Infinity else Num q')"

fun js_add :: "number \<Rightarrow> number \<Rightarrow> number" where
  "js_add (Num a) (Num b) = fl (a + b)"
| "js_add NaN _ = NaN"
| "js_add _ NaN = NaN"
| "js_add _ _ = Infinity"

fun js_mul :: "number \<Rightarrow> number \<Rightarrow> number" where
  "js_mul (Num a) (Num b) = fl (a * b)"
| "js_mul NaN _ = NaN"
| "js_mul _ NaN = NaN"
| "js_mul Infinity (Num b) = (if b = 0 then NaN else Infinity)"
| "js_mul (Num a) Infinity = (if a = 0 then NaN else Infinity)"
| "js_mul Infinity Infinity = Infinity"

text \<open>Division never raises: \<open>0 / 0\<close> is \<open>NaN\<close>, any other \<open>x / 0\<close> is \<open>Infinity\<close>.\<close>

fun js_div :: "number \<Rightarrow> number \<Rightarrow> number" where
  "js_div (Num a) (Num b) = (if b = 0 then (if a = 0 then NaN else Infinity) else fl (a / b))"
| "js_div NaN _ = NaN"
| "js_div _ NaN = NaN"
| "js_div (Num a) Infinity = Num 0"
| "js_div Infinity (Num b) = Infinity"
| "js_div Infinity Infinity = NaN"

text \<open>\<open>Math.round\<close>: the nearest integer, the upper one of two equally near.\<close>

fun Math_round :: "number \<Rightarrow> number" where
  "Math_round (Num q) = Num (of_int \<lfloor>q + 1 / 2\<rfloor>)"
| "Math_round Infinity = Infinity"
| "Math_round NaN = NaN"

fun digits :: "nat \<Rightarrow> string" where
  "digits n = (if n < 10 then [''0123456789'' ! n] else digits (n div 10) @ [''0123456789'' ! (n mod 10)])"

declare digits.simps [simp del]

text \<open>
  \<open>Number.prototype.toString\<close>, which the program applies to results of \<open>Math.round\<close>
  only: an integer below \<open>10\<^sup>2\<^sup>1\<close> prints in plain decimal. From \<open>10\<^sup>2\<^sup>1\<close> on JavaScript
  prints an exponent (\<open>1e+21\<close>); no accuracy and no mean of millisecond counts below
  \<open>2\<^sup>5\<^sup>3\<close> reaches that, and there the model prints all digits instead.
\<close>

fun toString :: "number \<Rightarrow> string" where
  "toString (Num q) = digits (nat \<lfloor>q\<rfloor>)"
| "toString Infinity = ''Infinity''"
| "toString NaN = ''NaN''"

section \<open>The debrief block\<close>

text \<open>
  What the block uses of jsPsych's \<open>DataCollection\<close> and \<open>DataColumn\<close>:
  \<^item> \<open>filter({ key: value })\<close> keeps the trials whose property \<open>key\<close> is defined and
    strictly equal to \<open>value\<close>;
  \<^item> \<open>count()\<close> is the length of the array, a number (an array is shorter than \<open>2\<^sup>3\<^sup>2\<close>);
  \<^item> \<open>select('rt')\<close> is the column of the \<open>rt\<close> values of the trials that define one
    (a millisecond count is below \<open>2\<^sup>5\<^sup>3\<close>, so it is a number as it stands);
  \<^item> \<open>sum()\<close> adds the values up from \<open>0\<close>, and \<open>mean()\<close> divides the sum by the
    number of values. On an empty column that is \<open>0 / 0 = NaN\<close>; later releases of
    jsPsych return \<open>undefined\<close> there, which \<open>Math.round\<close> turns into \<open>NaN\<close> as well.
\<close>

definition filter_task :: "Task \<Rightarrow> DataCollection \<Rightarrow> DataCollection" where
  "filter_task v data = DataCollection [t \<leftarrow> trials data. task t = Some v]"

definition filter_correct :: "bool \<Rightarrow> DataCollection \<Rightarrow> DataCollection" where
  "filter_correct v data = DataCollection [t \<leftarrow> trials data. correct t = Some v]"

definition count_dc :: "DataCollection \<Rightarrow> number" where
  "count_dc data = Num (of_nat (length (trials data)))"

definition select_rt :: "DataCollection \<Rightarrow> number list" where
  "select_rt data = map (\<lambda>r. Num (of_nat r)) (List.map_filter rt (trials data))"

definition sum_col :: "number list \<Rightarrow> number" where
  "sum_col vs = foldl js_add (Num 0) vs"

definition count_col :: "number list \<Rightarrow> number" where
  "count_col vs = Num (of_nat (length vs))"

definition mean_col :: "number list \<Rightarrow> number" where
  "mean_col vs = js_div (sum_col vs) (count_col vs)"

text \<open>
  \<open>debrief_block.stimulus\<close>, with \<open>data\<close> for \<open>jsPsych.data.get()\<close>. The constants
  \<open>accuracy\<close> and \<open>rt\<close> of the function are \<open>debrief_accuracy\<close> and \<open>debrief_rt\<close>.
\<close>

definition debrief_accuracy :: "DataCollection \<Rightarrow> number" where
  "debrief_accuracy data =
     (let trials = filter_task TaskResponse data;
          correct_trials = filter_correct True trials
      in Math_round (js_mul (js_div (count_dc correct_trials) (count_dc trials)) (Num 100)))"

definition debrief_rt :: "DataCollection \<Rightarrow> number" where
  "debrief_rt data =
     (let trials = filter_task TaskResponse data;
          correct_trials = filter_correct True trials
      in Math_round (mean_col (select_rt correct_trials)))"

definition debrief_stimulus :: "DataCollection \<Rightarrow> string" where
  "debrief_stimulus data =
     ''<p>You responded correctly on '' @ toString (debrief_accuracy data) @
     ''% of the trials.</p>\<newline>'' @
     ''          <p>Your average response time was '' @ toString (debrief_rt data) @
     ''ms.</p>\<newline>'' @
     ''          <p>Press any key to complete the experiment. Thank you!</p>''"

section \<open>The specification's formulas and example data\<close>

text \<open>
  The summary as the specification words it, over the reals: the accuracy is
  \<open>round(100 * count(correct = true) / count(total))\<close> of the response-tagged events,
  the reaction time \<open>round(mean(rt))\<close> over the correct ones among them (those that
  have an \<open>rt\<close>). \<open>round\<close> is rounding to the nearest integer, a half upwards.
\<close>

definition response_count :: "DataCollection \<Rightarrow> nat" where
  "response_count data = length [t \<leftarrow> trials data. task t = Some TaskResponse]"

definition correct_count :: "DataCollection \<Rightarrow> nat" where
  "correct_count data =
     length [t \<leftarrow> trials data. task t = Some TaskResponse \<and> correct t = Some True]"

definition correct_rts :: "DataCollection \<Rightarrow> nat list" where
  "correct_rts data =
     List.map_filter rt [t \<leftarrow> trials data. task t = Some TaskResponse \<and> correct t = Some True]"

definition spec_accuracy :: "DataCollection \<Rightarrow> int" where
  "spec_accuracy data = round (100 * real (correct_count data) / real (response_count data))"

definition spec_reaction_time :: "DataCollection \<Rightarrow> int" where
  "spec_reaction_time data =
     round (real (sum_list (correct_rts data)) / real (length (correct_rts data)))"

text \<open>The exact percentage is halfway between two integers: \<open>100 * c / t = j + 1/2\<close>.\<close>

definition halfway :: "DataCollection \<Rightarrow> bool" where
  "halfway data \<longleftrightarrow>
     2 * response_count data dvd 200 * correct_count data + response_count data"

text \<open>A response trial, a trial that wrote no \<open>task\<close>, two environments and a page.\<close>

abbreviation response_trial :: "bool \<Rightarrow> nat \<Rightarrow> TrialData" where
  "response_trial c ms \<equiv>
     \<lparr>task = Some TaskResponse, response = None, correct = Some c, correct_response = None,
      saveIncrementally = None, rt = Some ms\<rparr>"

abbreviation untagged_trial :: "nat \<Rightarrow> TrialData" where
  "untagged_trial ms \<equiv>
     \<lparr>task = None, response = None, correct = None, correct_response = None,
      saveIncrementally = None, rt = Some ms\<rparr>"

abbreviation participant_cfg :: Config where
  "participant_cfg \<equiv>
     \<lparr>debug = False, mock = False, prolificCC = ''C0DE1234'',
      prolificCUrl = ''https://app.prolific.com/submissions/complete?cc=C0DE1234''\<rparr>"

abbreviation developer_cfg :: Config where
  "developer_cfg \<equiv>
     \<lparr>debug = True, mock = True, prolificCC = ''C0DE1234'',
      prolificCUrl = ''https://app.prolific.com/submissions/complete?cc=C0DE1234''\<rparr>"

abbreviation page :: World where
  "page \<equiv>
     \<lparr>content_div = Some ''<div>+</div>'', body_html = None, console = [], adapter_calls = [],
      timers = [], panel_updates = 0\<rparr>"

section \<open>Unfolding and evaluation\<close>

lemmas runner_defs =
  on_data_update_def saveTrialDataPartial_then_def on_finish_def saveTrialDataComplete_then_def
  exitExperiment_def exitExperimentDebugging_def saveTrialDataPartial_def
  saveTrialDataComplete_def console_log_def console_error_def setTimeout_def
  updateDebugPanel_def

lemmas debrief_defs =
  debrief_accuracy_def debrief_rt_def filter_task_def filter_correct_def count_dc_def
  select_rt_def sum_col_def count_col_def mean_col_def

lemmas number_defs = fl_def ilog2_def compute_floorlog pow2_def round_ties_even_def

lemmas spec_defs =
  spec_accuracy_def spec_reaction_time_def response_count_def correct_count_def
  correct_rts_def halfway_def

section \<open>Rounding to binary64\<close>

text \<open>
  Two facts about \<open>fl\<close> carry the summary: a result is off by at most half a unit in the
  last place (\<open>fl_error\<close>), and a value that has 53 significant bits is not rounded at
  all (\<open>fl_exact\<close>).
\<close>

lemma pow2_powr: "pow2 k = 2 powr (real_of_int k)"
  by (simp add: pow2_def powr_real_of_int inverse_eq_divide)

lemma pow2_pos: "0 < pow2 k"
  by (simp add: pow2_powr)

lemma pow2_add: "pow2 (j + k) = pow2 j * pow2 k"
  by (simp add: pow2_powr powr_add)

lemma pow2_mono: "j \<le> k \<Longrightarrow> pow2 j \<le> pow2 k"
  by (simp add: pow2_powr)

lemma pow2_nat: "pow2 (int n) = 2 ^ n"
  by (simp add: pow2_def)

lemma pow2_neg_nat: "pow2 (- int n) = 1 / 2 ^ n"
  by (simp add: pow2_powr powr_minus powr_realpow inverse_eq_divide)

lemma pow2_ilog2_le:
  assumes "0 < q"
  shows "pow2 (ilog2 q) \<le> q"
proof (cases "1 \<le> q")
  case True
  let ?n = "nat \<lfloor>q\<rfloor>"
  let ?L = "floorlog 2 ?n"
  from True have n: "0 < ?n" by simp
  then have "2 ^ (?L - 1) \<le> ?n"
    using floorlog_bounds [of ?n 2] by simp
  then have le: "real (2 ^ (?L - 1)) \<le> real ?n"
    by (simp only: of_nat_le_iff)
  have "0 < ?L" using n by (simp add: floorlog_def)
  then have e: "int ?L - 1 = int (?L - 1)" by simp
  have "pow2 (int ?L - 1) = real (2 ^ (?L - 1))"
    by (simp only: e pow2_nat of_nat_power of_nat_numeral)
  also note le
  also have "real ?n \<le> q" using True by linarith
  finally show ?thesis using True by (simp add: ilog2_def)
next
  case False
  let ?m = "nat (\<lceil>1 / q\<rceil> - 1)"
  let ?L = "floorlog 2 ?m"
  from False assms have r: "1 < 1 / q" by simp
  then have c: "2 \<le> \<lceil>1 / q\<rceil>" by linarith
  then have m: "0 < ?m" by simp
  then have "?m < 2 ^ ?L"
    using floorlog_bounds [of ?m 2] by simp
  then have "int ?m < int (2 ^ ?L)"
    by (simp only: of_nat_less_iff)
  then have "int ?m < 2 ^ ?L"
    by (simp only: of_nat_power of_nat_numeral)
  moreover from c have "0 \<le> \<lceil>1 / q\<rceil> - 1" by linarith
  then have "int ?m = \<lceil>1 / q\<rceil> - 1" by (rule nat_0_le)
  ultimately have "\<lceil>1 / q\<rceil> \<le> 2 ^ ?L" by linarith
  then have "1 / q \<le> 2 ^ ?L"
    by (simp add: ceiling_le_iff)
  with assms have "1 / 2 ^ ?L \<le> q"
    by (simp add: field_simps)
  then show ?thesis using False by (simp add: ilog2_def pow2_neg_nat)
qed

lemma pow2_ilog2_gt:
  assumes "0 < q"
  shows "q < pow2 (ilog2 q + 1)"
proof (cases "1 \<le> q")
  case True
  let ?n = "nat \<lfloor>q\<rfloor>"
  let ?L = "floorlog 2 ?n"
  from True have n: "0 < ?n" by simp
  then have "?n < 2 ^ ?L"
    using floorlog_bounds [of ?n 2] by simp
  then have "?n + 1 \<le> 2 ^ ?L" by (simp only: Suc_eq_plus1 [symmetric] Suc_le_eq)
  then have "real (?n + 1) \<le> real (2 ^ ?L)" by (simp only: of_nat_le_iff)
  then have "real ?n + 1 \<le> 2 ^ ?L" by simp
  moreover have "q < real ?n + 1" using True by linarith
  ultimately have "q < 2 ^ ?L" by linarith
  then show ?thesis using True by (simp add: ilog2_def pow2_nat)
next
  case False
  let ?m = "nat (\<lceil>1 / q\<rceil> - 1)"
  let ?L = "floorlog 2 ?m"
  from False assms have r: "1 < 1 / q" by simp
  then have c: "2 \<le> \<lceil>1 / q\<rceil>" by linarith
  then have m: "0 < ?m" by simp
  then have L: "0 < ?L" by (simp add: floorlog_def)
  from m have "2 ^ (?L - 1) \<le> ?m"
    using floorlog_bounds [of ?m 2] by simp
  then have "real (2 ^ (?L - 1)) \<le> real ?m" by (simp only: of_nat_le_iff)
  then have le: "2 ^ (?L - 1) \<le> real ?m" by simp
  from c have "0 \<le> \<lceil>1 / q\<rceil> - 1" by linarith
  then have "int ?m = \<lceil>1 / q\<rceil> - 1" by (rule nat_0_le)
  then have "real ?m = real_of_int \<lceil>1 / q\<rceil> - 1"
    by (metis of_int_1 of_int_diff of_int_of_nat_eq)
  moreover have "real_of_int \<lceil>1 / q\<rceil> - 1 < 1 / q" by linarith
  ultimately have "2 ^ (?L - 1) < 1 / q" using le by linarith
  then have "q < 1 / 2 ^ (?L - 1)" using assms by (simp add: field_simps)
  also have "\<dots> = pow2 (- int (?L - 1))" by (simp only: pow2_neg_nat)
  also have "- int (?L - 1) = - int ?L + 1" using L by simp
  finally show ?thesis using False by (simp add: ilog2_def)
qed

lemma round_ties_even_error: "\<bar>of_int (round_ties_even m) - m\<bar> \<le> 1 / 2"
  unfolding round_ties_even_def Let_def by (auto; linarith)

lemma pow2_max_le: "pow2 (max a b) \<le> pow2 a + pow2 b"
  using pow2_pos [of a] pow2_pos [of b] by (cases "a \<le> b") (simp_all add: max_def)

lemma pow2_diff_nat: "pow2 (e - int n) = pow2 e / 2 ^ n"
  by (simp add: pow2_powr powr_diff powr_realpow)

lemma pow2_minus_52: "pow2 (e - 52) = pow2 e / 2 ^ 52"
  using pow2_diff_nat [of e 52] by simp

lemma pow2_minus_1074_half: "pow2 (- 1074) / 2 = pow2 (- 1075)"
  using pow2_diff_nat [of "- 1074" 1] by simp

lemma pow2_1024_ge: "2 ^ 54 \<le> pow2 1024"
  using pow2_mono [of 54 1024] pow2_nat [of 54] by simp

lemma pow2_minus_1075_le: "pow2 (- 1075) \<le> 1 / 2 ^ 100"
  using pow2_mono [of "- 1075" "- 100"] pow2_neg_nat [of 100] by simp

lemma fl_error:
  assumes "0 < q" and "q \<le> 2 ^ 53"
  shows "\<exists>q'. fl q = Num q' \<and> \<bar>q' - q\<bar> \<le> q / 2 ^ 53 + pow2 (- 1075)"
proof -
  define u where "u = pow2 (max (ilog2 q - 52) (- 1074))"
  define q' where "q' = real_of_int (round_ties_even (q / u)) * u"
  have u: "0 < u" by (simp add: u_def pow2_pos)
  have "\<bar>q' - q\<bar> = \<bar>real_of_int (round_ties_even (q / u)) - q / u\<bar> * u"
  proof -
    have "q' - q = (real_of_int (round_ties_even (q / u)) - q / u) * u"
      using u by (simp add: q'_def field_simps)
    then show ?thesis using u by (simp add: abs_mult)
  qed
  also have "\<dots> \<le> 1 / 2 * u"
    using u round_ties_even_error [of "q / u"] by (intro mult_right_mono) simp_all
  also have "\<dots> \<le> q / 2 ^ 53 + pow2 (- 1075)"
  proof -
    have "u \<le> pow2 (ilog2 q - 52) + pow2 (- 1074)"
      unfolding u_def by (rule pow2_max_le)
    moreover have "pow2 (ilog2 q - 52) \<le> q / 2 ^ 52"
      using pow2_ilog2_le [OF assms(1)] by (simp add: pow2_minus_52 divide_right_mono)
    ultimately have "1 / 2 * u \<le> q / 2 ^ 53 + pow2 (- 1074) / 2" by simp
    then show ?thesis by (simp only: pow2_minus_1074_half)
  qed
  finally have err: "\<bar>q' - q\<bar> \<le> q / 2 ^ 53 + pow2 (- 1075)" .
  have "q' \<le> q + (q / 2 ^ 53 + pow2 (- 1075))" using err by linarith
  also have "\<dots> < 2 ^ 54" using assms(2) pow2_minus_1075_le by simp
  also note pow2_1024_ge
  finally have "\<not> pow2 1024 \<le> q'" by simp
  then have "fl q = Num q'"
    using assms(1) by (simp add: fl_def Let_def u_def q'_def)
  with err show ?thesis by blast
qed

lemma accuracy_close:
  fixes c t :: nat
  assumes t: "0 < t" "t < 2 ^ 32" and c: "c \<le> t"
  shows "\<exists>b. js_mul (js_div (Num (real c)) (Num (real t))) (Num 100) = Num b
           \<and> \<bar>b - 100 * real c / real t\<bar> \<le> 1 / 2 ^ 44"
proof (cases "c = 0")
  case True
  then show ?thesis using t by (simp add: fl_def)
next
  case False
  let ?q = "real c / real t"
  let ?tiny = "pow2 (- 1075)"
  have tiny: "?tiny \<le> 1 / 2 ^ 100" by (rule pow2_minus_1075_le)
  have q1: "?q \<le> 1" using t c by simp
  have "1 / real t \<le> ?q" using False t by (simp add: divide_right_mono)
  moreover have "1 / 2 ^ 32 < 1 / real t"
  proof -
    have "real t < 2 ^ 32" using t(2) by (metis of_nat_less_iff of_nat_numeral of_nat_power)
    then show ?thesis using t(1) by (simp add: field_simps)
  qed
  ultimately have q0: "1 / 2 ^ 32 < ?q" by linarith
  then have "0 < ?q" by (simp add: less_trans [OF _ q0])
  moreover have "?q \<le> 2 ^ 53" using q1 by simp
  ultimately obtain a where a: "fl ?q = Num a" "\<bar>a - ?q\<bar> \<le> ?q / 2 ^ 53 + ?tiny"
    using fl_error by blast
  have a1: "\<bar>a - ?q\<bar> \<le> 1 / 2 ^ 53 + 1 / 2 ^ 100"
    using a(2) q1 tiny by (simp add: field_simps)
  have s1: "(1::real) / 2 ^ 53 + 1 / 2 ^ 100 \<le> 1 / 2 ^ 33" by simp
  have s2: "(1::real) / 2 ^ 33 < 1 / 2 ^ 32" "(1::real) / 2 ^ 33 \<le> 1" by simp_all
  have a_pos: "0 < a" and a_le: "a \<le> 2" using a1 q0 q1 s1 s2 by linarith+
  then have "0 < a * 100" "a * 100 \<le> 2 ^ 53" by simp_all
  then obtain b where b: "fl (a * 100) = Num b" "\<bar>b - a * 100\<bar> \<le> a * 100 / 2 ^ 53 + ?tiny"
    using fl_error by blast
  have b1: "\<bar>b - a * 100\<bar> \<le> 200 / 2 ^ 53 + 1 / 2 ^ 100"
    using b(2) a_le tiny by (simp add: field_simps)
  have "b - 100 * ?q = (b - a * 100) + 100 * (a - ?q)" by simp
  then have "\<bar>b - 100 * ?q\<bar> \<le> \<bar>b - a * 100\<bar> + \<bar>100 * (a - ?q)\<bar>"
    by (simp only: abs_triangle_ineq)
  also have "\<bar>100 * (a - ?q)\<bar> = 100 * \<bar>a - ?q\<bar>"
    by (simp only: abs_mult abs_numeral)
  finally have "\<bar>b - 100 * ?q\<bar> \<le> \<bar>b - a * 100\<bar> + 100 * \<bar>a - ?q\<bar>" .
  also have "\<dots> \<le> (200 / 2 ^ 53 + 1 / 2 ^ 100) + 100 * (1 / 2 ^ 53 + 1 / 2 ^ 100)"
    by (intro add_mono mult_left_mono a1 b1) simp
  also have "\<dots> \<le> 1 / 2 ^ 44" by simp
  finally have "\<bar>b - 100 * real c / real t\<bar> \<le> 1 / 2 ^ 44" by simp
  moreover have "js_mul (js_div (Num (real c)) (Num (real t))) (Num 100) = Num b"
    using t(1) a(1) b(1) by simp
  ultimately show ?thesis by blast
qed

lemma floor_near_fraction:
  fixes N D :: nat and x :: real
  assumes D: "0 < D" and nd: "\<not> D dvd N"
    and x: "\<bar>x - real N / real D\<bar> < 1 / real D"
  shows "\<lfloor>x\<rfloor> = int (N div D)"
proof -
  let ?r = "N mod D"
  have r: "1 \<le> ?r" "?r + 1 \<le> D"
    using nd D by (simp_all add: dvd_eq_mod_eq_0 Suc_le_eq)
  have z: "real N / real D = real (N div D) + real ?r / real D"
    by (rule of_nat_of_nat_div_aux)
  have lo: "1 / real D \<le> real ?r / real D"
    using r(1) D by (simp add: divide_right_mono)
  have "real (?r + 1) \<le> real D" using r(2) by (simp only: of_nat_le_iff)
  then have "real ?r + 1 \<le> real D" by simp
  then have hi: "real ?r / real D \<le> 1 - 1 / real D"
    using D by (simp add: field_simps)
  have "real (N div D) < x" "x < real (N div D) + 1"
    using x z lo hi by linarith+
  then show ?thesis by (simp add: floor_unique)
qed

lemma floor_at_fraction:
  fixes N D :: nat and x :: real
  assumes D: "0 < D" and x: "\<bar>x - real N / real D\<bar> < 1 / real D"
  shows "\<lfloor>x\<rfloor> = int (N div D) \<or> \<lfloor>x\<rfloor> = int (N div D) - 1"
proof -
  let ?r = "N mod D"
  have z: "real N / real D = real (N div D) + real ?r / real D"
    by (rule of_nat_of_nat_div_aux)
  have lo: "0 \<le> real ?r / real D" by simp
  have "?r + 1 \<le> D" using D by (simp add: Suc_le_eq)
  then have "real (?r + 1) \<le> real D" by (simp only: of_nat_le_iff)
  then have "real ?r + 1 \<le> real D" by simp
  then have hi: "real ?r / real D \<le> 1 - 1 / real D"
    using D by (simp add: field_simps)
  have inv: "1 / real D \<le> 1" using D by simp
  have "real (N div D) - 1 < x" "x < real (N div D) + 1"
    using x z lo hi inv by linarith+
  then have "of_int (int (N div D) - 1) \<le> x" "x < of_int (int (N div D) + 1)"
    by simp_all
  then have "int (N div D) - 1 \<le> \<lfloor>x\<rfloor>" "\<lfloor>x\<rfloor> < int (N div D) + 1"
    by (simp_all only: le_floor_iff floor_less_iff)
  then show ?thesis by linarith
qed

lemma half_up_fraction:
  fixes c t :: nat
  assumes "0 < t"
  shows "100 * real c / real t + 1 / 2 = real (200 * c + t) / real (2 * t)"
  using assms by (simp add: field_simps)

lemma accuracy_number:
  fixes c t :: nat
  assumes t: "0 < t" "t < 2 ^ 32" and c: "c \<le> t"
  shows "(\<not> 2 * t dvd 200 * c + t \<longrightarrow>
           Math_round (js_mul (js_div (Num (real c)) (Num (real t))) (Num 100)) =
           Num (of_int (round (100 * real c / real t))))
       \<and> (Math_round (js_mul (js_div (Num (real c)) (Num (real t))) (Num 100)) =
             Num (of_int (round (100 * real c / real t)))
          \<or> Math_round (js_mul (js_div (Num (real c)) (Num (real t))) (Num 100)) =
             Num (of_int (round (100 * real c / real t) - 1)))"
proof -
  obtain b where b: "js_mul (js_div (Num (real c)) (Num (real t))) (Num 100) = Num b"
      "\<bar>b - 100 * real c / real t\<bar> \<le> 1 / 2 ^ 44"
    using accuracy_close [OF t c] by blast
  let ?N = "200 * c + t" and ?D = "2 * t"
  have D: "0 < ?D" using t(1) by simp
  have "real ?D < 2 ^ 44"
  proof -
    have "real t < 2 ^ 32" using t(2) by (metis of_nat_less_iff of_nat_numeral of_nat_power)
    then show ?thesis by simp
  qed
  then have "1 / 2 ^ 44 < 1 / real ?D" using D by (simp add: field_simps)
  moreover have "\<bar>(b + 1 / 2) - real ?N / real ?D\<bar> = \<bar>b - 100 * real c / real t\<bar>"
  proof -
    have "real ?N / real ?D = 100 * real c / real t + 1 / 2"
      by (rule half_up_fraction [OF t(1), symmetric])
    then have "(b + 1 / 2) - real ?N / real ?D = b - 100 * real c / real t" by linarith
    then show ?thesis by (simp only:)
  qed
  ultimately have near: "\<bar>(b + 1 / 2) - real ?N / real ?D\<bar> < 1 / real ?D"
    using b(2) by linarith
  have spec: "round (100 * real c / real t) = int (?N div ?D)"
    unfolding round_def
    by (simp only: half_up_fraction [OF t(1)] floor_divide_of_nat_eq)
  have "\<not> ?D dvd ?N \<longrightarrow> \<lfloor>b + 1 / 2\<rfloor> = int (?N div ?D)"
    using floor_near_fraction [OF D _ near] by blast
  moreover have "\<lfloor>b + 1 / 2\<rfloor> = int (?N div ?D) \<or> \<lfloor>b + 1 / 2\<rfloor> = int (?N div ?D) - 1"
    using floor_at_fraction [OF D near] .
  ultimately show ?thesis
    by (simp only: b(1) Math_round.simps spec) auto
qed

lemma pow2_strict_mono: "j < k \<Longrightarrow> pow2 j < pow2 k"
  by (simp add: pow2_powr)

lemma round_ties_even_of_nat: "round_ties_even (real n) = int n"
  by (simp add: round_ties_even_def)

lemma fl_exact:
  fixes m :: nat
  assumes m: "m < 2 ^ 53" and j: "- 1074 \<le> j" "j \<le> 0"
  shows "fl (real m * pow2 j) = Num (real m * pow2 j)"
proof (cases "m = 0")
  case True
  then show ?thesis by (simp add: fl_def)
next
  case False
  define q where "q = real m * pow2 j"
  define k where "k = max (ilog2 q - 52) (- 1074)"
  have q: "0 < q" using False pow2_pos [of j] by (simp add: q_def)
  have rm: "real m < 2 ^ 53"
    using m by (metis of_nat_less_iff of_nat_numeral of_nat_power)
  have "pow2 (ilog2 q) \<le> q" using q by (rule pow2_ilog2_le)
  also have "q < 2 ^ 53 * pow2 j" using rm pow2_pos [of j] by (simp add: q_def)
  also have "\<dots> = pow2 (53 + j)" using pow2_add [of 53 j] pow2_nat [of 53] by simp
  finally have "\<not> pow2 (53 + j) \<le> pow2 (ilog2 q)" by simp
  then have "\<not> 53 + j \<le> ilog2 q" using pow2_mono by blast
  then have kj: "k \<le> j" using j(1) by (simp add: k_def)
  define d where "d = nat (j - k)"
  have "j = k + int d" using kj by (simp add: d_def)
  then have pj: "pow2 j = pow2 k * 2 ^ d"
    using pow2_add [of k "int d"] by (simp only: pow2_nat)
  have "q / pow2 k = real (m * 2 ^ d)"
    using pow2_pos [of k] by (simp add: q_def pj)
  then have "real_of_int (round_ties_even (q / pow2 k)) * pow2 k = real (m * 2 ^ d) * pow2 k"
    by (simp only: round_ties_even_of_nat of_int_of_nat_eq)
  also have "\<dots> = q" by (simp add: q_def pj)
  finally have q': "real_of_int (round_ties_even (q / pow2 k)) * pow2 k = q" .
  have "pow2 j \<le> 1" using pow2_mono [OF j(2)] by (simp add: pow2_def)
  then have "q \<le> real m" by (simp add: q_def mult_left_le)
  also have "real m < 2 ^ 54" using rm by simp
  also note pow2_1024_ge
  finally have "\<not> pow2 1024 \<le> q" by simp
  then have "fl q = Num q"
    using q q' by (simp add: fl_def Let_def k_def)
  then show ?thesis by (simp only: q_def)
qed

lemma fl_exact_nat: "m < 2 ^ 53 \<Longrightarrow> fl (real m) = Num (real m)"
  using fl_exact [of m 0] by (simp add: pow2_def)

lemma fl_exact_half: "m < 2 ^ 53 \<Longrightarrow> fl (real m / 2) = Num (real m / 2)"
  using fl_exact [of m "- 1"] by (simp add: pow2_def)

lemma sum_col_exact:
  "a + sum_list rs < 2 ^ 53 \<Longrightarrow>
   foldl js_add (Num (real a)) (map (\<lambda>r. Num (real r)) rs) = Num (real (a + sum_list rs))"
proof (induction rs arbitrary: a)
  case Nil
  show ?case by simp
next
  case (Cons r rs)
  from Cons.prems have "a + r < 2 ^ 53" by simp
  then have "js_add (Num (real a)) (Num (real r)) = Num (real (a + r))"
    using fl_exact_nat [of "a + r"] by simp
  moreover from Cons.prems have "(a + r) + sum_list rs < 2 ^ 53" by simp
  then have "foldl js_add (Num (real (a + r))) (map (\<lambda>r. Num (real r)) rs) =
      Num (real ((a + r) + sum_list rs))"
    by (rule Cons.IH)
  ultimately show ?case by (simp add: add.assoc)
qed

lemma half_up_mean:
  fixes s n :: nat
  assumes "0 < n"
  shows "real s / real n + 1 / 2 = real (2 * s + n) / real (2 * n)"
  using assms by (simp add: field_simps)

lemma mean_number:
  fixes s n :: nat
  assumes n: "0 < n" "n < 2 ^ 32" and s: "s < 2 ^ 52"
  shows "Math_round (js_div (Num (real s)) (Num (real n))) =
         Num (of_int (round (real s / real n)))"
proof -
  let ?q = "real s / real n"
  let ?N = "2 * s + n" and ?D = "2 * n"
  have div: "js_div (Num (real s)) (Num (real n)) = fl ?q" using n(1) by simp
  have D: "0 < ?D" using n(1) by simp
  have spec: "round ?q = int (?N div ?D)"
    unfolding round_def
    by (simp only: half_up_mean [OF n(1)] floor_divide_of_nat_eq)
  consider "s = 0" | "s \<noteq> 0" "?D dvd ?N" | "s \<noteq> 0" "\<not> ?D dvd ?N" by blast
  then show ?thesis
  proof cases
    case 1
    then show ?thesis using n(1) by (simp add: fl_def)
  next
    case 2
    then obtain k where k: "?N = ?D * k" by (auto simp: dvd_def)
    then have k1: "1 \<le> k" using n(1) by (cases k) simp_all
    define m where "m = 2 * k - 1"
    have mn: "m * n = 2 * s"
    proof -
      have "2 * s + n = (m + 1) * n" using k k1 by (simp add: m_def algebra_simps)
      then show ?thesis by simp
    qed
    have "m \<le> m * n" using n(1) by simp
    then have "m < 2 ^ 53" using mn s by simp
    then have ex: "fl (real m / 2) = Num (real m / 2)" by (rule fl_exact_half)
    have "real m * real n = 2 * real s"
      using mn by (metis of_nat_mult of_nat_numeral)
    then have "?q = real m / 2" using n(1) by (simp add: field_simps)
    then show ?thesis by (simp only: div ex Math_round.simps round_def)
  next
    case 3
    have q: "0 < ?q" using 3(1) n(1) by simp
    have rs: "real s \<le> 2 ^ 52 - 1"
    proof -
      have "s + 1 \<le> 2 ^ 52" using s by simp
      then have "real (s + 1) \<le> real (2 ^ 52)" by (simp only: of_nat_le_iff)
      then show ?thesis by simp
    qed
    have rn: "real n \<le> 2 ^ 32"
      using n(2) by (metis less_imp_le of_nat_le_iff of_nat_numeral of_nat_power)
    have "1 \<le> real n" using n(1) by simp
    then have "real s * 1 \<le> real s * real n" by (intro mult_left_mono) simp_all
    then have "?q \<le> real s" using n(1) by (simp add: field_simps)
    then have "?q \<le> 2 ^ 53" using rs by simp
    with q obtain b where b: "fl ?q = Num b" "\<bar>b - ?q\<bar> \<le> ?q / 2 ^ 53 + pow2 (- 1075)"
      using fl_error by blast
    have "real n * pow2 (- 1075) \<le> 2 ^ 32 * (1 / 2 ^ 100)"
      using rn pow2_minus_1075_le pow2_pos [of "- 1075"] by (intro mult_mono) simp_all
    then have "real s / 2 ^ 53 + real n * pow2 (- 1075) < 1 / 2"
      using rs by simp
    moreover have "?q / 2 ^ 53 + pow2 (- 1075) = (real s / 2 ^ 53 + real n * pow2 (- 1075)) / real n"
      using n(1) by (simp add: field_simps)
    ultimately have "?q / 2 ^ 53 + pow2 (- 1075) < (1 / 2) / real n"
      using n(1) by (simp only: divide_strict_right_mono of_nat_0_less_iff)
    also have "(1 / 2) / real n = 1 / real ?D" by simp
    finally have small: "\<bar>b - ?q\<bar> < 1 / real ?D" using b(2) by linarith
    have "real ?N / real ?D = ?q + 1 / 2"
      by (rule half_up_mean [OF n(1), symmetric])
    then have "(b + 1 / 2) - real ?N / real ?D = b - ?q" by linarith
    then have "\<bar>(b + 1 / 2) - real ?N / real ?D\<bar> < 1 / real ?D"
      using small by (simp only:)
    then have "\<lfloor>b + 1 / 2\<rfloor> = int (?N div ?D)"
      using floor_near_fraction [OF D 3(2)] by blast
    then show ?thesis by (simp only: div b(1) Math_round.simps spec)
  qed
qed

section \<open>Incremental saves\<close>

lemma step_adapter_calls:
  "adapter_calls (step cfg ev w) = adapter_calls w @ dispatched [ev]"
  by (cases ev) (simp_all add: runner_defs Let_def split: outcome.split)

lemma running_adapter_calls:
  "adapter_calls (running cfg evs w) = adapter_calls w @ dispatched evs"
proof (induction evs arbitrary: w)
  case Nil
  show ?case by simp
next
  case (Cons ev evs)
  have "dispatched (ev # evs) = dispatched [ev] @ dispatched evs"
    by (cases ev) simp_all
  with Cons show ?case
    by (simp add: step_adapter_calls del: step.simps)
qed

text \<open>
  C1. For every trial record the data-update handler receives, the handler calls
  \<open>saveTrialDataPartial\<close> exactly once, with that record, when the record's
  \<open>saveIncrementally\<close> is true, and not at all when it is not; and the continuation
  that runs when the call settles makes no call of the adapter, whatever the outcome.
\<close>

theorem on_data_update_dispatch:
  "adapter_calls (on_data_update cfg trialData w) =
     adapter_calls w @ (if truthy (saveIncrementally trialData) then [SavePartial trialData] else [])
   \<and> adapter_calls (saveTrialDataPartial_then cfg out w') = adapter_calls w'"
  by (simp add: on_data_update_def saveTrialDataPartial_then_def saveTrialDataPartial_def
      console_log_def console_error_def updateDebugPanel_def Let_def split: outcome.split)

lemma step_frame:
  assumes "visible w1 = visible w2 \<and> adapter_calls w1 = adapter_calls w2"
  shows "visible (step cfg ev w1) = visible (step cfg ev w2)
       \<and> adapter_calls (step cfg ev w1) = adapter_calls (step cfg ev w2)"
  using assms
  by (cases ev) (simp_all add: runner_defs visible_def Let_def split: outcome.split)

lemma running_frame:
  assumes "visible w1 = visible w2 \<and> adapter_calls w1 = adapter_calls w2"
  shows "visible (running cfg evs w1) = visible (running cfg evs w2)
       \<and> adapter_calls (running cfg evs w1) = adapter_calls (running cfg evs w2)"
  using assms
proof (induction evs arbitrary: w1 w2)
  case Nil
  then show ?case by simp
next
  case (Cons ev evs)
  from Cons.prems have "visible (step cfg ev w1) = visible (step cfg ev w2)
       \<and> adapter_calls (step cfg ev w1) = adapter_calls (step cfg ev w2)"
    by (rule step_frame)
  then have "visible (running cfg evs (step cfg ev w1)) = visible (running cfg evs (step cfg ev w2))
       \<and> adapter_calls (running cfg evs (step cfg ev w1)) =
         adapter_calls (running cfg evs (step cfg ev w2))"
    by (rule Cons.IH)
  then show ?case by simp
qed

text \<open>
  C7. When a call of \<open>saveTrialDataPartial\<close> fails, the continuation writes the error
  to the console and does nothing else: it returns, it makes no call of the adapter
  (no retry), and whatever events follow, the calls made and the page are what they
  would have been without the failure.
\<close>

theorem incremental_save_failure:
  "saveTrialDataPartial_then cfg (Rejected e) w = w\<lparr>console := console w @ [Error [Err e]]\<rparr>
   \<and> adapter_calls (running cfg evs (saveTrialDataPartial_then cfg (Rejected e) w)) =
       adapter_calls (running cfg evs w)
   \<and> visible (running cfg evs (saveTrialDataPartial_then cfg (Rejected e) w)) =
       visible (running cfg evs w)"
proof -
  have eq: "saveTrialDataPartial_then cfg (Rejected e) w = w\<lparr>console := console w @ [Error [Err e]]\<rparr>"
    by (simp add: saveTrialDataPartial_then_def console_error_def)
  have "visible (w\<lparr>console := console w @ [Error [Err e]]\<rparr>) = visible w
      \<and> adapter_calls (w\<lparr>console := console w @ [Error [Err e]]\<rparr>) = adapter_calls w"
    by (simp add: visible_def)
  then have "visible (running cfg evs (w\<lparr>console := console w @ [Error [Err e]]\<rparr>)) =
        visible (running cfg evs w)
      \<and> adapter_calls (running cfg evs (w\<lparr>console := console w @ [Error [Err e]]\<rparr>)) =
        adapter_calls (running cfg evs w)"
    by (rule running_frame)
  with eq show ?thesis by simp
qed

text \<open>
  C8. \<open>updateDebugPanel\<close> is called once when a call of \<open>saveTrialDataPartial\<close>
  succeeds while \<open>debug\<close> and \<open>mock\<close> are both set, and in no other case: not when the
  call fails, not when either flag is off, and by none of the other callbacks.
\<close>

theorem updateDebugPanel_iff:
  "panel_updates (saveTrialDataPartial_then cfg out w) =
     panel_updates w + (if out = Resolved \<and> debug cfg \<and> mock cfg then 1 else 0)
   \<and> panel_updates (on_data_update cfg trialData w) = panel_updates w
   \<and> panel_updates (on_finish cfg data w) = panel_updates w
   \<and> panel_updates (saveTrialDataComplete_then cfg data out w) = panel_updates w"
  by (simp add: runner_defs Let_def split: option.split outcome.split)

section \<open>The final save\<close>

text \<open>
  C2. When the timeline is complete, \<open>on_finish\<close> calls \<open>saveTrialDataComplete\<close>
  exactly once, with the array of all records collected; its continuation calls the
  adapter no more. After any run, the calls made are the incremental ones and then
  this one call, which carries exactly the records \<open>rs\<close>.
\<close>

theorem on_finish_dispatch:
  "adapter_calls (on_finish cfg (DataCollection rs) (running cfg evs w)) =
     adapter_calls w @ dispatched evs @ [SaveComplete rs]
   \<and> adapter_calls (saveTrialDataComplete_then cfg data out w') = adapter_calls w'"
  by (simp add: runner_defs values_dc_def running_adapter_calls Let_def
      split: option.split outcome.split)

lemma scenario_A:
  "adapter_calls
     (saveTrialDataComplete_then participant_cfg
        (DataCollection [t1\<lparr>saveIncrementally := Some True\<rparr>, t2\<lparr>saveIncrementally := Some True\<rparr>,
                         t3\<lparr>saveIncrementally := Some True\<rparr>]) Resolved
        (on_finish participant_cfg
           (DataCollection [t1\<lparr>saveIncrementally := Some True\<rparr>, t2\<lparr>saveIncrementally := Some True\<rparr>,
                            t3\<lparr>saveIncrementally := Some True\<rparr>])
           (running participant_cfg
              [DataUpdate (t1\<lparr>saveIncrementally := Some True\<rparr>), PartialSettled Resolved,
               DataUpdate (t2\<lparr>saveIncrementally := Some True\<rparr>),
               DataUpdate (t3\<lparr>saveIncrementally := Some True\<rparr>), PartialSettled Resolved,
               PartialSettled Resolved] page))) =
   [SavePartial (t1\<lparr>saveIncrementally := Some True\<rparr>),
    SavePartial (t2\<lparr>saveIncrementally := Some True\<rparr>),
    SavePartial (t3\<lparr>saveIncrementally := Some True\<rparr>),
    SaveComplete [t1\<lparr>saveIncrementally := Some True\<rparr>, t2\<lparr>saveIncrementally := Some True\<rparr>,
                  t3\<lparr>saveIncrementally := Some True\<rparr>]]"
  by (simp add: runner_defs values_dc_def)

text \<open>
  C10. \<open>on_finish\<close> writes the "please wait" notice only if the document has an
  element \<open>#jspsych-content\<close>; without one the page is left as it is. Either way it
  makes the one call of \<open>saveTrialDataComplete\<close>.
\<close>

theorem on_finish_content_div:
  "visible (on_finish cfg data w) =
     (case content_div w of
        None \<Rightarrow> visible w
      | Some _ \<Rightarrow> visible (w\<lparr>content_div := Some ''<p> Please wait, your data are being saved.</p>''\<rparr>))
   \<and> adapter_calls (on_finish cfg data w) = adapter_calls w @ [SaveComplete (values_dc data)]"
  by (simp add: runner_defs visible_def Let_def split: option.split)

lemma sublist_fifth: "sublist xs (a @ b @ c @ d @ xs @ e)"
proof -
  have "a @ b @ c @ d @ xs @ e = (a @ b @ c @ d) @ xs @ e" by simp
  then show ?thesis by (simp only: sublist_appendI)
qed

lemma exitMessage_contains_code: "sublist (prolificCC cfg) (exitMessage cfg)"
  unfolding exitMessage_def by (rule sublist_fifth)

text \<open>
  C3. When the final save fails, the error is written to the console, the body is
  replaced with the exit notice, which contains the completion code, and the redirect
  to the completion URL is scheduled 3000 ms ahead: what a participant (\<open>debug\<close> off)
  sees is what they see when the save succeeds.
\<close>

theorem final_save_failure:
  "console (saveTrialDataComplete_then cfg data (Rejected e) w) = console w @ [Error [Err e]]
   \<and> body_html (saveTrialDataComplete_then cfg data (Rejected e) w) = Some (exitMessage cfg)
   \<and> sublist (prolificCC cfg) (exitMessage cfg)
   \<and> timers (saveTrialDataComplete_then cfg data (Rejected e) w) =
       timers w @ [(LocationReplace (prolificCUrl cfg), 3000)]
   \<and> (\<not> debug cfg \<longrightarrow>
        visible (saveTrialDataComplete_then cfg data (Rejected e) w) =
        visible (saveTrialDataComplete_then cfg data Resolved w))"
  by (simp add: runner_defs visible_def exitMessage_contains_code)

theorem final_save_failure_witness:
  "\<not> debug participant_cfg
   \<and> body_html (saveTrialDataComplete_then participant_cfg (DataCollection []) (Rejected ''unavailable'') page)
       = Some (exitMessage participant_cfg)
   \<and> visible (saveTrialDataComplete_then participant_cfg (DataCollection []) (Rejected ''unavailable'') page)
       = visible (saveTrialDataComplete_then participant_cfg (DataCollection []) Resolved page)"
  using final_save_failure [of participant_cfg "DataCollection []" "''unavailable''" page]
  by simp

text \<open>
  C4, as claimed for every configuration, fails with \<open>debug\<close> on: after a successful
  save the notice goes into \<open>#jspsych-content\<close> and the data display is scheduled,
  after a failed one the body is replaced and the redirect is scheduled.
\<close>

theorem final_save_debug_differs:
  "visible (saveTrialDataComplete_then developer_cfg (DataCollection []) Resolved page) \<noteq>
   visible (saveTrialDataComplete_then developer_cfg (DataCollection []) (Rejected ''unavailable'') page)"
  by (simp add: runner_defs visible_def)

text \<open>
  C4, amended. With \<open>debug\<close> off, what the participant sees after the final save is
  the same whether the save succeeded or failed, and so are the calls made; the two
  outcomes differ only in the console, by the one line of the error. With \<open>debug\<close>
  on they differ in what is seen, for every page: after success the exit notice is
  written into \<open>#jspsych-content\<close> if the document has that element (the page is left
  as it is if not), the body is untouched and the data display is scheduled, with no
  redirect; after failure the body is replaced with the exit notice and the redirect
  is scheduled.
\<close>

theorem final_save_same_exit:
  "(\<not> debug cfg \<longrightarrow>
      visible (saveTrialDataComplete_then cfg data (Rejected e) w) =
      visible (saveTrialDataComplete_then cfg data Resolved w)
    \<and> adapter_calls (saveTrialDataComplete_then cfg data (Rejected e) w) =
      adapter_calls (saveTrialDataComplete_then cfg data Resolved w)
    \<and> console (saveTrialDataComplete_then cfg data (Rejected e) w) =
      console (saveTrialDataComplete_then cfg data Resolved w) @ [Error [Err e]])
   \<and> (debug cfg \<longrightarrow>
      visible (saveTrialDataComplete_then cfg data Resolved w) =
        (case content_div w of Some _ \<Rightarrow> Some (exitMessage cfg) | None \<Rightarrow> None,
         body_html w, timers w @ [(DisplayData, 3000)], panel_updates w)
    \<and> visible (saveTrialDataComplete_then cfg data (Rejected e) w) =
        (None, Some (exitMessage cfg),
         timers w @ [(LocationReplace (prolificCUrl cfg), 3000)], panel_updates w)
    \<and> visible (saveTrialDataComplete_then cfg data (Rejected e) w) \<noteq>
      visible (saveTrialDataComplete_then cfg data Resolved w))"
  by (simp add: runner_defs visible_def split: option.split)

theorem final_save_same_exit_witness:
  "\<not> debug participant_cfg
   \<and> visible (saveTrialDataComplete_then participant_cfg (DataCollection []) (Rejected ''unavailable'') page) =
     visible (saveTrialDataComplete_then participant_cfg (DataCollection []) Resolved page)
   \<and> console (saveTrialDataComplete_then participant_cfg (DataCollection []) (Rejected ''unavailable'') page) =
     [Error [Err ''unavailable'']]
   \<and> debug developer_cfg
   \<and> visible (saveTrialDataComplete_then developer_cfg (DataCollection []) Resolved
        (page\<lparr>content_div := None\<rparr>)) =
     (None, None, [(DisplayData, 3000)], 0)
   \<and> visible (saveTrialDataComplete_then developer_cfg (DataCollection []) (Rejected ''unavailable'')
        (page\<lparr>content_div := None\<rparr>)) =
     (None, Some (exitMessage developer_cfg),
      [(LocationReplace (prolificCUrl developer_cfg), 3000)], 0)"
  using final_save_same_exit [of participant_cfg "DataCollection []" "''unavailable''" page]
    final_save_same_exit [of developer_cfg "DataCollection []" "''unavailable''"
      "page\<lparr>content_div := None\<rparr>"]
  by (simp add: runner_defs)

section \<open>The debrief summary\<close>

text \<open>
  C5, as claimed, fails: the block has no case for a dataset without response-tagged
  events. In a session of the variant that has the debrief block no trial writes
  \<open>task\<close>, and the participant reads "NaN%" and "NaNms".
\<close>

theorem debrief_untagged_NaN:
  "debrief_stimulus (DataCollection [untagged_trial 812, untagged_trial 10000]) =
     ''<p>You responded correctly on NaN% of the trials.</p>\<newline>'' @
     ''          <p>Your average response time was NaNms.</p>\<newline>'' @
     ''          <p>Press any key to complete the experiment. Thank you!</p>''"
  by (simp add: debrief_stimulus_def debrief_defs)

text \<open>
  C5, amended. On a dataset with no response-tagged event the block raises no error
  (division does not raise in JavaScript), and it has no special case either: it
  divides \<open>0\<close> by \<open>0\<close> for the accuracy and for the mean, both results are \<open>NaN\<close>, and
  the text says so.
\<close>

theorem debrief_no_response_trials:
  assumes "trials (filter_task TaskResponse data) = []"
  shows "debrief_accuracy data = NaN \<and> debrief_rt data = NaN
       \<and> debrief_stimulus data =
           ''<p>You responded correctly on NaN% of the trials.</p>\<newline>'' @
           ''          <p>Your average response time was NaNms.</p>\<newline>'' @
           ''          <p>Press any key to complete the experiment. Thank you!</p>''"
proof -
  from assms have "[t \<leftarrow> trials data. task t = Some TaskResponse] = []"
    by (simp add: filter_task_def)
  then have "debrief_accuracy data = NaN" and "debrief_rt data = NaN"
    by (simp_all add: debrief_defs)
  then show ?thesis by (simp add: debrief_stimulus_def)
qed

theorem debrief_no_response_trials_witness:
  "trials (filter_task TaskResponse
     (DataCollection [(untagged_trial 400)\<lparr>task := Some TaskFixation\<rparr>, untagged_trial 950])) = []
   \<and> debrief_accuracy
     (DataCollection [(untagged_trial 400)\<lparr>task := Some TaskFixation\<rparr>, untagged_trial 950]) = NaN
   \<and> debrief_rt
     (DataCollection [(untagged_trial 400)\<lparr>task := Some TaskFixation\<rparr>, untagged_trial 950]) = NaN"
  using debrief_no_response_trials
    [of "DataCollection [(untagged_trial 400)\<lparr>task := Some TaskFixation\<rparr>, untagged_trial 950]"]
  by (simp add: filter_task_def)

text \<open>
  C6, as claimed, fails on the accuracy. The block computes
  \<open>Math.round((count(correct) / count(total)) * 100)\<close> in binary64: for 23 correct of 40
  response trials the quotient is the number next below 0.575, its product with 100 is
  57.49999999999999, and the block reports 57, where
  \<open>round(100 * 23 / 40) = round(57.5) = 58\<close>.
\<close>

theorem debrief_accuracy_23_of_40:
  "debrief_accuracy
     (DataCollection (replicate 23 (response_trial True 500) @ replicate 17 (response_trial False 700)))
     = Num 57
   \<and> spec_accuracy
     (DataCollection (replicate 23 (response_trial True 500) @ replicate 17 (response_trial False 700)))
     = 58"
  by (simp add: debrief_defs spec_defs number_defs round_def Let_def)

text \<open>The block's numbers in terms of the counts and reaction times of the claim.\<close>

lemma debrief_accuracy_counts:
  "debrief_accuracy data =
     Math_round (js_mul (js_div (Num (real (correct_count data))) (Num (real (response_count data))))
       (Num 100))"
  by (simp add: debrief_accuracy_def filter_task_def filter_correct_def count_dc_def
      correct_count_def response_count_def)

lemma debrief_rt_column:
  "debrief_rt data =
     Math_round (js_div (foldl js_add (Num (real 0)) (map (\<lambda>r. Num (real r)) (correct_rts data)))
       (Num (real (length (correct_rts data)))))"
  by (simp add: debrief_rt_def filter_task_def filter_correct_def select_rt_def mean_col_def
      sum_col_def count_col_def correct_rts_def)

lemma correct_le_response: "correct_count data \<le> response_count data"
proof -
  have "[t \<leftarrow> trials data. task t = Some TaskResponse \<and> correct t = Some True] =
        [t \<leftarrow> [t \<leftarrow> trials data. task t = Some TaskResponse]. correct t = Some True]"
    by simp
  then show ?thesis
    unfolding correct_count_def response_count_def by (simp only: length_filter_le)
qed

lemma length_map_filter_le: "length (List.map_filter f ys) \<le> length ys"
  by (simp add: map_filter_def)

lemma length_correct_rts: "length (correct_rts data) \<le> correct_count data"
  unfolding correct_rts_def correct_count_def by (rule length_map_filter_le)

text \<open>
  C6, amended. The block filters the dataset to the response-tagged events. With
  at least one and fewer than \<open>2\<^sup>3\<^sup>2\<close> of them, the accuracy it reports is
  \<open>round(100 * count(correct) / count(total))\<close> unless that percentage is exactly
  halfway between two integers, and then it is this or the integer below; the
  reaction time it reports is \<open>round(mean(rt))\<close> over the correct events (with reaction
  times that sum to less than \<open>2\<^sup>5\<^sup>2\<close> ms). For the three trials of the claim it reports
  67 and 400.
\<close>

theorem debrief_summary_rounding:
  assumes "0 < response_count data" and "response_count data < 2 ^ 32"
  shows "(\<not> halfway data \<longrightarrow> debrief_accuracy data = Num (of_int (spec_accuracy data)))
       \<and> (debrief_accuracy data = Num (of_int (spec_accuracy data))
          \<or> debrief_accuracy data = Num (of_int (spec_accuracy data - 1)))
       \<and> (correct_rts data \<noteq> [] \<and> sum_list (correct_rts data) < 2 ^ 52 \<longrightarrow>
            debrief_rt data = Num (of_int (spec_reaction_time data)))"
proof -
  have acc: "(\<not> halfway data \<longrightarrow> debrief_accuracy data = Num (of_int (spec_accuracy data)))
       \<and> (debrief_accuracy data = Num (of_int (spec_accuracy data))
          \<or> debrief_accuracy data = Num (of_int (spec_accuracy data - 1)))"
    unfolding debrief_accuracy_counts spec_accuracy_def halfway_def
    by (rule accuracy_number [OF assms correct_le_response])
  have "debrief_rt data = Num (of_int (spec_reaction_time data))"
    if rts: "correct_rts data \<noteq> []" "sum_list (correct_rts data) < 2 ^ 52"
  proof -
    have n: "0 < length (correct_rts data)" using rts(1) by simp
    have "length (correct_rts data) \<le> response_count data"
      using length_correct_rts [of data] correct_le_response [of data] by simp
    then have n32: "length (correct_rts data) < 2 ^ 32" using assms(2) by simp
    have "0 + sum_list (correct_rts data) < 2 ^ 53" using rts(2) by simp
    then have "foldl js_add (Num (real 0)) (map (\<lambda>r. Num (real r)) (correct_rts data)) =
        Num (real (0 + sum_list (correct_rts data)))"
      by (rule sum_col_exact)
    then show ?thesis
      using mean_number [OF n n32 rts(2)]
      by (simp add: debrief_rt_column spec_reaction_time_def)
  qed
  with acc show ?thesis by blast
qed

theorem debrief_summary_rounding_witness:
  "0 < response_count
     (DataCollection [response_trial True 500, response_trial False 700, response_trial True 300])
   \<and> \<not> halfway
     (DataCollection [response_trial True 500, response_trial False 700, response_trial True 300])
   \<and> debrief_accuracy
     (DataCollection [response_trial True 500, response_trial False 700, response_trial True 300])
     = Num 67
   \<and> debrief_rt
     (DataCollection [response_trial True 500, response_trial False 700, response_trial True 300])
     = Num 400"
  using debrief_summary_rounding
    [of "DataCollection [response_trial True 500, response_trial False 700, response_trial True 300]"]
  by (simp add: spec_defs round_def)

text \<open>The same scenario, by evaluation of the block.\<close>

lemma debrief_scenario_C:
  "debrief_accuracy
     (DataCollection [response_trial True 500, response_trial False 700, response_trial True 300])
     = Num 67
   \<and> debrief_rt
     (DataCollection [response_trial True 500, response_trial False 700, response_trial True 300])
     = Num 400
   \<and> debrief_stimulus
     (DataCollection [response_trial True 500, response_trial False 700, response_trial True 300])
     = ''<p>You responded correctly on 67% of the trials.</p>\<newline>'' @
       ''          <p>Your average response time was 400ms.</p>\<newline>'' @
       ''          <p>Press any key to complete the experiment. Thank you!</p>''"
  by (simp add: debrief_stimulus_def debrief_defs number_defs digits.simps Let_def)

lemma correct_count_projection:
  "length [t \<leftarrow> ts. correct t = Some True] =
   length [p \<leftarrow> map (\<lambda>t. (correct t, rt t)) ts. fst p = Some True]"
  by (induction ts) simp_all

lemma correct_rt_projection:
  "List.map_filter rt [t \<leftarrow> ts. correct t = Some True] =
   List.map_filter snd [p \<leftarrow> map (\<lambda>t. (correct t, rt t)) ts. fst p = Some True]"
  by (induction ts) (simp_all split: option.split)

text \<open>
  C9. The summary is a function of the dataset alone, and of no more of it than the
  \<open>correct\<close> and \<open>rt\<close> properties of its response-tagged events, in their order:
  datasets that agree there get the same accuracy, reaction time and text. In
  particular, applied again to the same dataset the block yields the same output.
\<close>

theorem debrief_deterministic:
  assumes "map (\<lambda>t. (correct t, rt t)) (trials (filter_task TaskResponse data1)) =
           map (\<lambda>t. (correct t, rt t)) (trials (filter_task TaskResponse data2))"
  shows "debrief_accuracy data1 = debrief_accuracy data2
       \<and> debrief_rt data1 = debrief_rt data2
       \<and> debrief_stimulus data1 = debrief_stimulus data2"
proof -
  let ?r1 = "trials (filter_task TaskResponse data1)"
  let ?r2 = "trials (filter_task TaskResponse data2)"
  have len: "length ?r1 = length ?r2"
    using assms by (rule map_eq_imp_length_eq)
  have cnt: "length [t \<leftarrow> ?r1. correct t = Some True] = length [t \<leftarrow> ?r2. correct t = Some True]"
    by (simp only: correct_count_projection assms)
  have rts: "List.map_filter rt [t \<leftarrow> ?r1. correct t = Some True] =
             List.map_filter rt [t \<leftarrow> ?r2. correct t = Some True]"
    by (simp only: correct_rt_projection assms)
  have acc: "debrief_accuracy data1 = debrief_accuracy data2"
    unfolding debrief_accuracy_def filter_correct_def count_dc_def Let_def
    by (simp only: DataCollection.sel len cnt)
  have r: "debrief_rt data1 = debrief_rt data2"
    unfolding debrief_rt_def filter_correct_def select_rt_def Let_def
    by (simp only: DataCollection.sel rts)
  from acc r show ?thesis by (simp add: debrief_stimulus_def)
qed

theorem debrief_deterministic_witness:
  "debrief_stimulus
     (DataCollection [response_trial True 500, response_trial False 700, response_trial True 300]) =
   debrief_stimulus
     (DataCollection [response_trial True 500, untagged_trial 1000, response_trial False 700,
                      response_trial True 300])"
  using debrief_deterministic
    [of "DataCollection [response_trial True 500, response_trial False 700, response_trial True 300]"
        "DataCollection [response_trial True 500, untagged_trial 1000, response_trial False 700,
                      response_trial True 300]"]
  by (simp add: filter_task_def)

end
